theory Spec2Isabelle
  imports Complex_Main
begin

section \<open>ClopiNet sequence embedding: construction\<close>

text \<open>
  The module \<^verbatim>\<open>pyannote/audio/embedding/models/clopinet.py\<close> defines one class,
  \<^verbatim>\<open>ClopiNet\<close>, with a constructor, the read-only property \<^verbatim>\<open>output_dim\<close> and
  \<^verbatim>\<open>forward\<close>. Python exceptions are values of \<open>error\<close>; a function that may raise
  returns \<open>error + 'a\<close> with \<open>Inl\<close> the exception.
\<close>

datatype error =
    ValueError string
  | NotImplementedError string
  | AttributeError string
  | TypeError string
  | IndexError string
  | UnboundLocalError string
  | RuntimeError string

text \<open>The argument \<^verbatim>\<open>normalize\<close> is \<^verbatim>\<open>False\<close> or a string.\<close>

datatype normalize_mode = NFalse | NStr string

text \<open>Python truthiness of that value: \<^verbatim>\<open>False\<close> and the empty string are falsy.\<close>

fun truthy :: "normalize_mode \<Rightarrow> bool" where
  "truthy NFalse = False"
| "truthy (NStr s) = (s \<noteq> [])"

datatype device = CPU | CUDA nat

text \<open>
  Sub-layers. The weights of a layer are drawn at random by the library and never read by
  this file, so a layer is its name in the module registry (\<^verbatim>\<open>add_module\<close>) and the
  arguments it was built with; what it computes is supplied by the library (see \<open>torch\<close>
  below).
\<close>

record rnn_layer =
  rnn_name :: string
  rnn_kind :: string
  rnn_input_size :: int
  rnn_hidden_size :: int
  rnn_bidirectional :: bool

record linear_layer =
  lin_name :: string
  lin_in_features :: int
  lin_out_features :: int

text \<open>
  \<^verbatim>\<open>nn.BatchNorm1d(n, eps=1e-5, momentum=0.1, affine=False)\<close>: no learnable parameter,
  only the running statistics, which start at mean 0 and variance 1.
\<close>

record bn_stats =
  running_mean :: "real list"
  running_var :: "real list"
  num_batches_tracked :: nat

record batchnorm =
  bn_num_features :: int
  bn_running :: bn_stats

definition BatchNorm1d :: "int \<Rightarrow> batchnorm" where
  "BatchNorm1d n =
     \<lparr>bn_num_features = n,
      bn_running = \<lparr>running_mean = replicate (nat n) 0,
                     running_var = replicate (nat n) 1,
                     num_batches_tracked = 0\<rparr>\<rparr>"

text \<open>
  \<^verbatim>\<open>nn.Parameter(torch.ones(input_dim))\<close>: a one-dimensional tensor on a device. The flag
  \<open>is_parameter\<close> tells an \<^verbatim>\<open>nn.Parameter\<close> from a plain tensor.
\<close>

record tensor1 =
  dev1 :: device
  len1 :: nat
  at1 :: "nat \<Rightarrow> real"
  is_parameter :: bool

definition ones_parameter :: "int \<Rightarrow> tensor1" where
  "ones_parameter n = \<lparr>dev1 = CPU, len1 = nat n, at1 = (\<lambda>_. 1), is_parameter = True\<rparr>"

text \<open>The arguments of \<^verbatim>\<open>__init__\<close>; \<open>None\<close> is Python's \<^verbatim>\<open>None\<close>.\<close>

record init_args =
  a_n_features :: int
  a_rnn :: string
  a_recurrent :: "int list"
  a_bidirectional :: bool
  a_pooling :: string
  a_instance_normalize :: bool
  a_batch_normalize :: bool
  a_normalize :: normalize_mode
  a_weighted :: bool
  a_linear :: "int list option"
  a_attention :: "int list option"

text \<open>
  The attributes of a constructed module. The source's attribute names that end in an
  underscore (\<^verbatim>\<open>recurrent_layers_\<close>, \<^verbatim>\<open>alphas_\<close>, \<^verbatim>\<open>batch_norm_\<close>, ...) are written without
  it.
\<close>

record ClopiNet =
  n_features :: int
  rnn :: string
  recurrent :: "int list"
  bidirectional :: bool
  pooling :: string
  instance_normalize :: bool
  batch_normalize :: bool
  normalize :: normalize_mode
  weighted :: bool
  linear :: "int list"
  attention :: "int list"
  num_directions :: int
  recurrent_layers :: "rnn_layer list"
  alphas :: "tensor1 option"
  linear_layers :: "linear_layer list"
  batch_norm :: "batchnorm option"
  norm_batch_norm :: "batchnorm option"
  attention_layers :: "linear_layer list"

text \<open>\<^verbatim>\<open>'recurrent_{0}'.format(i)\<close> and its siblings: the decimal digits of \<open>i\<close>.\<close>

fun digits :: "nat \<Rightarrow> string" where
  "digits n = (if n < 10 then [char_of (48 + n)] else digits (n div 10) @ [char_of (48 + n mod 10)])"

declare digits.simps [simp del]

text \<open>
  Lines 106--120: the loop creating the recurrent layers. It returns the layers created so
  far and the exception, if one was raised.
\<close>

fun create_recurrent ::
  "string \<Rightarrow> bool \<Rightarrow> nat \<Rightarrow> int \<Rightarrow> int list \<Rightarrow> rnn_layer list \<times> error option" where
  "create_recurrent k bi i input_dim [] = ([], None)"
| \<open>create_recurrent k bi i input_dim (hidden_dim # rest) =
     (if k = ''LSTM'' \<or> k = ''GRU'' then
        (let recurrent_layer =
               \<lparr>rnn_name = ''recurrent_'' @ digits i, rnn_kind = k,
                rnn_input_size = input_dim, rnn_hidden_size = hidden_dim,
                rnn_bidirectional = bi\<rparr>;
             (layers, e) = create_recurrent k bi (Suc i)
                             (hidden_dim * (if bi then 2 else 1)) rest
         in (recurrent_layer # layers, e))
      else ([], Some (ValueError ''"rnn" must be one of {"LSTM", "GRU"}.'')))\<close>

text \<open>Lines 132--136 and 153--157: a chain of linear layers, named with a prefix.\<close>

fun create_linear :: "string \<Rightarrow> nat \<Rightarrow> int \<Rightarrow> int list \<Rightarrow> linear_layer list" where
  "create_linear p i input_dim [] = []"
| "create_linear p i input_dim (hidden_dim # rest) =
     \<lparr>lin_name = p @ digits i, lin_in_features = input_dim, lin_out_features = hidden_dim\<rparr>
       # create_linear p (Suc i) hidden_dim rest"

text \<open>The value of \<^verbatim>\<open>input_dim\<close> after such a loop.\<close>

definition final_dim :: "int \<Rightarrow> int list \<Rightarrow> int" where
  "final_dim input_dim hs = (if hs = [] then input_dim else last hs)"

text \<open>Lines 148--162: the attention layers.\<close>

definition create_attention :: "int \<Rightarrow> int list \<Rightarrow> linear_layer list" where
  "create_attention nf att =
     (if att = [] then []
      else create_linear ''attention_'' 0 nf att @
           (if final_dim nf att > 1
            then [\<lparr>lin_name = ''attention_'' @ digits (length att),
                   lin_in_features = final_dim nf att, lin_out_features = 1\<rparr>]
            else []))"

text \<open>
  \<^verbatim>\<open>__init__\<close> (lines 79--162). The second component lists, in order, the names of the
  sub-layers and parameters allocated before the constructor returned or raised.
\<close>

definition ClopiNet_init :: "init_args \<Rightarrow> (error + ClopiNet) \<times> string list" where
  \<open>ClopiNet_init a =
     (let lin = (case a_linear a of None \<Rightarrow> [] | Some l \<Rightarrow> l);
          att = (case a_attention a of None \<Rightarrow> [] | Some l \<Rightarrow> l);
          dirs = (if a_bidirectional a then 2 else 1)
      in
      if a_pooling a \<noteq> ''sum'' \<and> a_pooling a \<noteq> ''max'' then
        (Inl (ValueError ''"pooling" must be one of {"sum", "max"}''), [])
      else
        (case create_recurrent (a_rnn a) (a_bidirectional a) 0 (a_n_features a) (a_recurrent a) of
           (layers, Some e) \<Rightarrow> (Inl e, map rnn_name layers)
         | (layers, None) \<Rightarrow>
            (let input_dim = sum_list (a_recurrent a) * (if a_bidirectional a then 2 else 1);
                 al = (if a_weighted a then Some (ones_parameter input_dim) else None);
                 lls = create_linear ''linear_'' 0 input_dim lin;
                 input_dim' = final_dim input_dim lin;
                 bn = (if a_batch_normalize a then Some (BatchNorm1d input_dim') else None);
                 nbn = (if a_normalize a = NStr ''ball'' \<or> a_normalize a = NStr ''ring''
                        then Some (BatchNorm1d 1) else None);
                 als = create_attention (a_n_features a) att
             in (Inr \<lparr>n_features = a_n_features a, rnn = a_rnn a, recurrent = a_recurrent a,
                      bidirectional = a_bidirectional a, pooling = a_pooling a,
                      instance_normalize = a_instance_normalize a,
                      batch_normalize = a_batch_normalize a, normalize = a_normalize a,
                      weighted = a_weighted a, linear = lin, attention = att,
                      num_directions = dirs, recurrent_layers = layers, alphas = al,
                      linear_layers = lls, batch_norm = bn, norm_batch_norm = nbn,
                      attention_layers = als\<rparr>,
                 map rnn_name layers @ (if a_weighted a then [''alphas_''] else [])
                   @ map lin_name lls
                   @ (if a_batch_normalize a then [''batch_norm_''] else [])
                   @ (if a_normalize a = NStr ''ball'' \<or> a_normalize a = NStr ''ring''
                      then [''norm_batch_norm_''] else [])
                   @ map lin_name als))))\<close>

text \<open>The property \<^verbatim>\<open>output_dim\<close> (lines 164--168).\<close>

definition output_dim :: "ClopiNet \<Rightarrow> int" where
  "output_dim m =
     (if linear m \<noteq> [] then last (linear m)
      else sum_list (recurrent m) * (if bidirectional m then 2 else 1))"

section \<open>Tensors and the library\<close>

text \<open>
  Tensor entries are real numbers: the model is of exact arithmetic, and floating-point
  rounding, infinities and NaN are outside it. A tensor is its device, its shape and its
  entries; an entry outside the shape is never read.
\<close>

record tensor2 =
  dev2 :: device
  rows :: nat
  cols :: nat
  at2 :: "nat \<Rightarrow> nat \<Rightarrow> real"

text \<open>A dense batch of sequences: batch \<open>\<times>\<close> time \<open>\<times>\<close> features.\<close>

record tensor3 =
  dev3 :: device
  dim0 :: nat
  dim1 :: nat
  dim2 :: nat
  at3 :: "nat \<Rightarrow> nat \<Rightarrow> nat \<Rightarrow> real"

text \<open>\<^verbatim>\<open>PackedSequence\<close>: the flat data and the batch size of every time step.\<close>

record packed =
  pk_data :: tensor2
  pk_batch_sizes :: "nat list"

datatype sequence = Dense tensor3 | Packed packed

text \<open>
  What the model outputs after temporal pooling: a tensor whose dimension 1 is the channel
  dimension. A pooled embedding has rank 2, shape \<open>(e_n, e_c)\<close> and \<open>e_l = 1\<close>; its entry
  \<open>(b, j)\<close> is \<open>e_at b j 0\<close>. (Rank 3, shape \<open>(e_n, e_c, e_l)\<close>, is what the source carries
  on when \<^verbatim>\<open>pooling\<close> is neither string.)
\<close>

record embedding =
  e_dev :: device
  e_rank :: nat
  e_n :: nat
  e_c :: nat
  e_l :: nat
  e_at :: "nat \<Rightarrow> nat \<Rightarrow> nat \<Rightarrow> real"

text \<open>\<^verbatim>\<open>torch.zeros(num_directions, batch_size, hidden_dim, device=device)\<close>.\<close>

type_synonym zeros = "(int \<times> nat \<times> int) \<times> device"

datatype hidden = LSTM_hidden zeros zeros | GRU_hidden zeros

text \<open>
  The library: what the learned layers and the library routines compute. Each may raise.
  A recurrent layer maps a dense batch to a dense batch and a packed one to a packed one.
  Batch normalization maps every entry by a function that depends on the entry's channel
  (and on the batch and the running statistics), and returns the new running statistics.
\<close>

record torch =
  rnn_dense :: "rnn_layer \<Rightarrow> hidden \<Rightarrow> tensor3 \<Rightarrow> error + tensor3"
  rnn_packed :: "rnn_layer \<Rightarrow> hidden \<Rightarrow> packed \<Rightarrow> error + packed"
  linear_forward :: "linear_layer \<Rightarrow> sequence \<Rightarrow> error + tensor3"
  pad_packed_sequence :: "packed \<Rightarrow> error + tensor3"
  instance_norm :: "tensor3 \<Rightarrow> error + tensor3"
  batchnorm_forward :: "batchnorm \<Rightarrow> embedding \<Rightarrow> error + ((nat \<Rightarrow> real \<Rightarrow> real) \<times> bn_stats)"

definition transpose12 :: "tensor3 \<Rightarrow> tensor3" where
  "transpose12 x = x\<lparr>dim1 := dim2 x, dim2 := dim1 x, at3 := (\<lambda>b i j. at3 x b j i)\<rparr>"

definition tanh3 :: "tensor3 \<Rightarrow> tensor3" where
  "tanh3 x = x\<lparr>at3 := (\<lambda>b t f. tanh (at3 x b t f))\<rparr>"

text \<open>\<^verbatim>\<open>F.softmax(attn, dim=1)\<close>.\<close>

definition softmax_dim1 :: "tensor3 \<Rightarrow> tensor3" where
  "softmax_dim1 x =
     x\<lparr>at3 := (\<lambda>b t f. exp (at3 x b t f) / (\<Sum>t' < dim1 x. exp (at3 x b t' f)))\<rparr>"

text \<open>Broadcasting of one dimension: sizes agree or one of them is 1.\<close>

definition bc_ok :: "nat \<Rightarrow> nat \<Rightarrow> bool" where
  "bc_ok a b = (a = b \<or> a = 1 \<or> b = 1)"

definition bc_dim :: "nat \<Rightarrow> nat \<Rightarrow> nat" where
  "bc_dim a b = (if a = 1 then b else a)"

definition bc_ix :: "nat \<Rightarrow> nat \<Rightarrow> nat" where
  "bc_ix a i = (if a = 1 then 0 else i)"

text \<open>\<^verbatim>\<open>output * attn\<close> on two 3-dimensional tensors.\<close>

definition mul3 :: "tensor3 \<Rightarrow> tensor3 \<Rightarrow> error + tensor3" where
  "mul3 x y =
     (if bc_ok (dim0 x) (dim0 y) \<and> bc_ok (dim1 x) (dim1 y) \<and> bc_ok (dim2 x) (dim2 y) then
        Inr \<lparr>dev3 = dev3 x, dim0 = bc_dim (dim0 x) (dim0 y), dim1 = bc_dim (dim1 x) (dim1 y),
             dim2 = bc_dim (dim2 x) (dim2 y),
             at3 = (\<lambda>b t f.
                at3 x (bc_ix (dim0 x) b) (bc_ix (dim1 x) t) (bc_ix (dim2 x) f) *
                at3 y (bc_ix (dim0 y) b) (bc_ix (dim1 y) t) (bc_ix (dim2 y) f))\<rparr>
      else Inl (RuntimeError ''The size of tensor a must match the size of tensor b''))"

text \<open>\<^verbatim>\<open>output * self.alphas_\<close>: the weights are broadcast over batch and time.\<close>

definition mul_alphas :: "tensor3 \<Rightarrow> tensor1 \<Rightarrow> error + tensor3" where
  "mul_alphas x a =
     (if bc_ok (dim2 x) (len1 a) then
        Inr (x\<lparr>dim2 := bc_dim (dim2 x) (len1 a),
               at3 := (\<lambda>b t f. at3 x b t (bc_ix (dim2 x) f) * at1 a (bc_ix (len1 a) f))\<rparr>)
      else Inl (RuntimeError ''The size of tensor a must match the size of tensor b''))"

text \<open>\<^verbatim>\<open>torch.cat(outputs, dim=2)\<close>.\<close>

fun cat_dim2 :: "tensor3 list \<Rightarrow> error + tensor3" where
  "cat_dim2 [] = Inl (RuntimeError ''expected a non-empty list of Tensors'')"
| "cat_dim2 [x] = Inr x"
| "cat_dim2 (x # y # ys) =
     (case cat_dim2 (y # ys) of
        Inl e \<Rightarrow> Inl e
      | Inr r \<Rightarrow>
          if dim0 x = dim0 r \<and> dim1 x = dim1 r then
            Inr \<lparr>dev3 = dev3 x, dim0 = dim0 x, dim1 = dim1 x, dim2 = dim2 x + dim2 r,
                 at3 = (\<lambda>b t f. if f < dim2 x then at3 x b t f else at3 r b t (f - dim2 x))\<rparr>
          else Inl (RuntimeError ''Sizes of tensors must match except in dimension 2''))"

text \<open>\<^verbatim>\<open>output.sum(dim=1)\<close> and \<^verbatim>\<open>output.max(dim=1)\<close>.\<close>

definition sum_dim1 :: "tensor3 \<Rightarrow> embedding" where
  "sum_dim1 x =
     \<lparr>e_dev = dev3 x, e_rank = 2, e_n = dim0 x, e_c = dim2 x, e_l = 1,
      e_at = (\<lambda>b j _. \<Sum>t < dim1 x. at3 x b t j)\<rparr>"

definition max_dim1 :: "tensor3 \<Rightarrow> error + embedding" where
  "max_dim1 x =
     (if dim1 x = 0 then
        Inl (RuntimeError ''cannot perform reduction function max on tensor with no elements'')
      else
        Inr \<lparr>e_dev = dev3 x, e_rank = 2, e_n = dim0 x, e_c = dim2 x, e_l = 1,
             e_at = (\<lambda>b j _. Max ((\<lambda>t. at3 x b t j) ` {..< dim1 x}))\<rparr>)"

text \<open>The tensor left as it is when no pooling applies: its dimension 1 is time.\<close>

definition unpooled :: "tensor3 \<Rightarrow> embedding" where
  "unpooled x =
     \<lparr>e_dev = dev3 x, e_rank = 3, e_n = dim0 x, e_c = dim1 x, e_l = dim2 x, e_at = at3 x\<rparr>"

text \<open>The Euclidean norm along dimension 1, and \<^verbatim>\<open>torch.norm(output, 2, 1, keepdim=True)\<close>.\<close>

definition l2norm :: "embedding \<Rightarrow> nat \<Rightarrow> nat \<Rightarrow> real" where
  "l2norm e b k = sqrt (\<Sum>j < e_c e. (e_at e b j k)\<^sup>2)"

definition norm_dim1 :: "embedding \<Rightarrow> embedding" where
  "norm_dim1 e = e\<lparr>e_c := 1, e_at := (\<lambda>b _ k. l2norm e b k)\<rparr>"

text \<open>
  The logistic function over the reals, where it is strictly between 0 and 1. The
  library's \<^verbatim>\<open>F.sigmoid\<close> on 32-bit floats returns exactly 1.0 for large arguments;
  that rounding is outside this model.
\<close>

definition sigmoid :: "real \<Rightarrow> real" where
  "sigmoid x = 1 / (1 + exp (- x))"

text \<open>
  \<open>scale_by e s\<close> is \<^verbatim>\<open>e * s\<close> and \<open>div_by e s\<close> is \<^verbatim>\<open>e / s\<close> for \<open>s\<close> of the shape of
  \<open>norm_dim1 e\<close>, broadcast along dimension 1. Division by a zero norm, which gives NaN or
  an infinity in floating point, has no counterpart here.
\<close>

definition div_by :: "embedding \<Rightarrow> embedding \<Rightarrow> embedding" where
  "div_by e s = e\<lparr>e_at := (\<lambda>b j k. e_at e b j k / e_at s b 0 k)\<rparr>"

definition scale_by :: "embedding \<Rightarrow> embedding \<Rightarrow> embedding" where
  "scale_by e s = e\<lparr>e_at := (\<lambda>b j k. e_at e b j k * e_at s b 0 k)\<rparr>"

definition map_embedding :: "(real \<Rightarrow> real) \<Rightarrow> embedding \<Rightarrow> embedding" where
  "map_embedding f e = e\<lparr>e_at := (\<lambda>b j k. f (e_at e b j k))\<rparr>"

text \<open>
  \<^verbatim>\<open>Tensor.to(device)\<close> returns the tensor itself when it is on that device already, and
  otherwise a copy on the device, which is a plain tensor even when made from a parameter.
\<close>

definition tensor_to :: "tensor1 \<Rightarrow> device \<Rightarrow> tensor1" where
  "tensor_to a d = (if dev1 a = d then a else a\<lparr>dev1 := d, is_parameter := False\<rparr>)"

section \<open>Forward evaluation\<close>

text \<open>
  \<^verbatim>\<open>forward\<close> (lines 170--287), in the order of the source. The module is passed in and
  returned, since the call may assign module attributes; the result is the embedding or
  the exception raised.
\<close>

text \<open>Lines 172--181: batch size, feature count and device of the input.\<close>

definition input_size :: "sequence \<Rightarrow> error + (nat \<times> nat \<times> device)" where
  "input_size s =
     (case s of
        Packed p \<Rightarrow>
          (case pk_batch_sizes p of
             [] \<Rightarrow> Inl (IndexError ''index 0 is out of bounds for dimension 0 with size 0'')
           | bs # _ \<Rightarrow> Inr (bs, cols (pk_data p), dev2 (pk_data p)))
      | Dense x \<Rightarrow> Inr (dim0 x, dim2 x, dev3 x))"

definition is_packed :: "sequence \<Rightarrow> bool" where
  "is_packed s = (case s of Packed _ \<Rightarrow> True | Dense _ \<Rightarrow> False)"

text \<open>\<^verbatim>\<open>'{0}'.format(i)\<close> for a Python integer.\<close>

definition str_int :: "int \<Rightarrow> string" where
  "str_int i = (if i < 0 then ''-'' @ digits (nat (- i)) else digits (nat i))"

text \<open>Lines 183--185.\<close>

definition check_features :: "ClopiNet \<Rightarrow> nat \<Rightarrow> error + unit" where
  "check_features m nf =
     (if int nf \<noteq> n_features m then
        Inl (ValueError (''Wrong feature dimension. Found '' @ digits nf @
                         '', should be '' @ str_int (n_features m)))
      else Inr ())"

text \<open>
  Lines 189--192: the value of the variable \<^verbatim>\<open>sequence\<close> afterwards. A
  \<^verbatim>\<open>PackedSequence\<close> has no method \<^verbatim>\<open>transpose\<close>.
\<close>

definition normalize_input :: "torch \<Rightarrow> ClopiNet \<Rightarrow> sequence \<Rightarrow> error + sequence" where
  "normalize_input tb m s =
     (if instance_normalize m then
        (case s of
           Dense x \<Rightarrow>
             (case instance_norm tb (transpose12 x) of
                Inl e \<Rightarrow> Inl e
              | Inr y \<Rightarrow> Inr (Dense (transpose12 y)))
         | Packed p \<Rightarrow>
             Inl (AttributeError ''PackedSequence object has no attribute transpose''))
      else Inr s)"

text \<open>
  Lines 194--195, \<^verbatim>\<open>self.alphas_ = self.alphas_.to(device)\<close>. The name \<^verbatim>\<open>alphas_\<close> is
  a registered parameter of the module, and \<^verbatim>\<open>nn.Module.__setattr__\<close> refuses to bind
  such a name to a tensor that is not an \<^verbatim>\<open>nn.Parameter\<close>.
\<close>

definition setattr_alphas :: "ClopiNet \<Rightarrow> tensor1 \<Rightarrow> error + ClopiNet" where
  "setattr_alphas m v =
     (if is_parameter v then Inr (m\<lparr>alphas := Some v\<rparr>)
      else Inl (TypeError ''cannot assign Tensor as parameter alphas_''))"

definition move_alphas :: "ClopiNet \<Rightarrow> device \<Rightarrow> error + ClopiNet" where
  "move_alphas m d =
     (if weighted m then
        (case alphas m of
           None \<Rightarrow> Inl (AttributeError ''ClopiNet object has no attribute alphas_'')
         | Some a \<Rightarrow> setattr_alphas m (tensor_to a d))
      else Inr m)"

text \<open>
  Lines 201--213: the initial state of a layer. With any other \<^verbatim>\<open>rnn\<close> the variable
  \<^verbatim>\<open>hidden\<close> is unbound when line 216 reads it.
\<close>

definition initial_hidden :: "string \<Rightarrow> int \<Rightarrow> nat \<Rightarrow> int \<Rightarrow> device \<Rightarrow> error + hidden" where
  "initial_hidden k nd batch_size hidden_dim d =
     (if k = ''LSTM'' then
        Inr (LSTM_hidden ((nd, batch_size, hidden_dim), d) ((nd, batch_size, hidden_dim), d))
      else if k = ''GRU'' then Inr (GRU_hidden ((nd, batch_size, hidden_dim), d))
      else Inl (UnboundLocalError ''local variable hidden referenced before assignment''))"

text \<open>Lines 197--218: the stacked recurrent layers; every layer's output is collected.\<close>

fun run_recurrent ::
  "(rnn_layer \<Rightarrow> hidden \<Rightarrow> 'a \<Rightarrow> error + 'a) \<Rightarrow> string \<Rightarrow> int \<Rightarrow> nat \<Rightarrow> device \<Rightarrow> 'a \<Rightarrow>
   (int \<times> rnn_layer) list \<Rightarrow> error + 'a list" where
  "run_recurrent f k nd bs d output [] = Inr []"
| "run_recurrent f k nd bs d output ((hidden_dim, layer) # rest) =
     (case initial_hidden k nd bs hidden_dim d of
        Inl e \<Rightarrow> Inl e
      | Inr h \<Rightarrow>
         (case f layer h output of
            Inl e \<Rightarrow> Inl e
          | Inr output' \<Rightarrow>
             (case run_recurrent f k nd bs d output' rest of
                Inl e \<Rightarrow> Inl e
              | Inr outputs \<Rightarrow> Inr (output' # outputs))))"

text \<open>Lines 220--222: unpacking every output, in order.\<close>

fun pad_all :: "torch \<Rightarrow> packed list \<Rightarrow> error + tensor3 list" where
  "pad_all tb [] = Inr []"
| "pad_all tb (p # ps) =
     (case pad_packed_sequence tb p of
        Inl e \<Rightarrow> Inl e
      | Inr x \<Rightarrow> (case pad_all tb ps of Inl e \<Rightarrow> Inl e | Inr xs \<Rightarrow> Inr (x # xs)))"

text \<open>
  Lines 197--222 for either kind of input. Unpacking the empty \<^verbatim>\<open>zip\<close> into two
  names raises a \<^verbatim>\<open>ValueError\<close>.
\<close>

definition recurrent_outputs ::
  "torch \<Rightarrow> ClopiNet \<Rightarrow> nat \<Rightarrow> device \<Rightarrow> sequence \<Rightarrow> error + tensor3 list" where
  "recurrent_outputs tb m bs d output =
     (case output of
        Dense x \<Rightarrow>
          run_recurrent (rnn_dense tb) (rnn m) (num_directions m) bs d x
            (zip (recurrent m) (recurrent_layers m))
      | Packed p \<Rightarrow>
          (case run_recurrent (rnn_packed tb) (rnn m) (num_directions m) bs d p
                  (zip (recurrent m) (recurrent_layers m)) of
             Inl e \<Rightarrow> Inl e
           | Inr outs \<Rightarrow>
              (case pad_all tb outs of
                 Inl e \<Rightarrow> Inl e
               | Inr xs \<Rightarrow>
                   if xs = [] then
                     Inl (ValueError ''not enough values to unpack (expected 2, got 0)'')
                   else Inr xs)))"

text \<open>Lines 228--229.\<close>

definition apply_weights :: "ClopiNet \<Rightarrow> tensor3 \<Rightarrow> error + tensor3" where
  "apply_weights m output =
     (if weighted m then
        (case alphas m of
           None \<Rightarrow> Inl (AttributeError ''ClopiNet object has no attribute alphas_'')
         | Some a \<Rightarrow> mul_alphas output a)
      else Inr output)"

text \<open>Lines 232--238: the linear layers, each followed by \<^verbatim>\<open>tanh\<close>.\<close>

fun run_linear :: "torch \<Rightarrow> tensor3 \<Rightarrow> (int \<times> linear_layer) list \<Rightarrow> error + tensor3" where
  "run_linear tb output [] = Inr output"
| "run_linear tb output ((hidden_dim, layer) # rest) =
     (case linear_forward tb layer (Dense output) of
        Inl e \<Rightarrow> Inl e
      | Inr y \<Rightarrow> run_linear tb (tanh3 y) rest)"

text \<open>Lines 243--247: the attention layers, run on the variable \<^verbatim>\<open>sequence\<close>.\<close>

fun run_attention :: "torch \<Rightarrow> sequence \<Rightarrow> (linear_layer \<times> int) list \<Rightarrow> error + sequence" where
  "run_attention tb attn [] = Inr attn"
| "run_attention tb attn ((layer, hidden_dim) # rest) =
     (case linear_forward tb layer attn of
        Inl e \<Rightarrow> Inl e
      | Inr y \<Rightarrow> run_attention tb (Dense (tanh3 y)) rest)"

text \<open>Lines 242--254.\<close>

definition attend ::
  "torch \<Rightarrow> ClopiNet \<Rightarrow> bool \<Rightarrow> sequence \<Rightarrow> tensor3 \<Rightarrow> error + tensor3" where
  "attend tb m packed_sequences sequence output =
     (if attention_layers m \<noteq> [] then
        (case run_attention tb sequence (zip (attention_layers m) (attention m @ [1])) of
           Inl e \<Rightarrow> Inl e
         | Inr attn \<Rightarrow>
             if packed_sequences then
               Inl (NotImplementedError
                      ''attention is not yet implemented for variable length sequences.'')
             else
               (case attn of
                  Dense a \<Rightarrow> mul3 output (softmax_dim1 a)
                | Packed _ \<Rightarrow> Inl (TypeError ''softmax(): argument input must be Tensor'')))
      else Inr output)"

text \<open>
  Lines 257--264. With any other \<^verbatim>\<open>pooling\<close> neither branch runs and the tensor stays
  as it is.
\<close>

definition pool :: "ClopiNet \<Rightarrow> bool \<Rightarrow> tensor3 \<Rightarrow> error + embedding" where
  \<open>pool m packed_sequences output =
     (if pooling m = ''sum'' then Inr (sum_dim1 output)
      else if pooling m = ''max'' then
        (if packed_sequences then
           Inl (NotImplementedError
                  ''"max" pooling is not yet implemented for variable length sequences.'')
         else max_dim1 output)
      else Inr (unpooled output))\<close>

text \<open>
  Lines 197--254, with the values of the two variables \<^verbatim>\<open>output\<close> (what the recurrent
  layers read) and \<^verbatim>\<open>sequence\<close> (what the attention layers read) as arguments.
\<close>

definition before_pooling ::
  "torch \<Rightarrow> ClopiNet \<Rightarrow> bool \<Rightarrow> nat \<Rightarrow> device \<Rightarrow> sequence \<Rightarrow> sequence \<Rightarrow> error + tensor3" where
  "before_pooling tb m packed_sequences bs d output sequence =
     (case recurrent_outputs tb m bs d output of
        Inl e \<Rightarrow> Inl e
      | Inr outputs \<Rightarrow>
         (case cat_dim2 outputs of
            Inl e \<Rightarrow> Inl e
          | Inr out1 \<Rightarrow>
             (case apply_weights m out1 of
                Inl e \<Rightarrow> Inl e
              | Inr out2 \<Rightarrow>
                 (case run_linear tb out2 (zip (linear m) (linear_layers m)) of
                    Inl e \<Rightarrow> Inl e
                  | Inr out3 \<Rightarrow> attend tb m packed_sequences sequence out3))))"

text \<open>Lines 197--264.\<close>

definition pooled ::
  "torch \<Rightarrow> ClopiNet \<Rightarrow> bool \<Rightarrow> nat \<Rightarrow> device \<Rightarrow> sequence \<Rightarrow> sequence \<Rightarrow> error + embedding" where
  "pooled tb m packed_sequences bs d output sequence =
     (case before_pooling tb m packed_sequences bs d output sequence of
        Inl e \<Rightarrow> Inl e
      | Inr out4 \<Rightarrow> pool m packed_sequences out4)"

text \<open>One call of a batch-normalization layer: the output and the layer afterwards.\<close>

definition apply_bn :: "torch \<Rightarrow> batchnorm \<Rightarrow> embedding \<Rightarrow> error + (embedding \<times> batchnorm)" where
  "apply_bn tb bn e =
     (case batchnorm_forward tb bn e of
        Inl err \<Rightarrow> Inl err
      | Inr (g, st) \<Rightarrow>
          Inr (e\<lparr>e_at := (\<lambda>b j k. g j (e_at e b j k))\<rparr>, bn\<lparr>bn_running := st\<rparr>))"

text \<open>Lines 269--270.\<close>

definition batch_norm_step ::
  "torch \<Rightarrow> ClopiNet \<Rightarrow> embedding \<Rightarrow> (error + embedding) \<times> ClopiNet" where
  "batch_norm_step tb m output =
     (if batch_normalize m then
        (case batch_norm m of
           None \<Rightarrow> (Inl (AttributeError ''ClopiNet object has no attribute batch_norm_''), m)
         | Some bn \<Rightarrow>
            (case apply_bn tb bn output of
               Inl e \<Rightarrow> (Inl e, m)
             | Inr (output', bn') \<Rightarrow> (Inr output', m\<lparr>batch_norm := Some bn'\<rparr>)))
      else (Inr output, m))"

text \<open>
  Lines 272--287. The norm is computed whenever \<^verbatim>\<open>normalize\<close> is truthy, and used
  under the three modes only. Mode \<^verbatim>\<open>ring\<close> calls the norm's batch normalization
  twice.
\<close>

definition normalize_output ::
  "torch \<Rightarrow> ClopiNet \<Rightarrow> embedding \<Rightarrow> (error + embedding) \<times> ClopiNet" where
  "normalize_output tb m output =
     (let norm = norm_dim1 output in
      if normalize m = NStr ''sphere'' then (Inr (div_by output norm), m)
      else if normalize m = NStr ''ball'' then
        (case norm_batch_norm m of
           None \<Rightarrow> (Inl (AttributeError ''ClopiNet object has no attribute norm_batch_norm_''), m)
         | Some nbn \<Rightarrow>
            (case apply_bn tb nbn norm of
               Inl e \<Rightarrow> (Inl e, m)
             | Inr (y, nbn') \<Rightarrow>
                 (Inr (scale_by (div_by output norm) (map_embedding sigmoid y)),
                  m\<lparr>norm_batch_norm := Some nbn'\<rparr>)))
      else if normalize m = NStr ''ring'' then
        (case norm_batch_norm m of
           None \<Rightarrow> (Inl (AttributeError ''ClopiNet object has no attribute norm_batch_norm_''), m)
         | Some nbn \<Rightarrow>
            (case apply_bn tb nbn norm of
               Inl e \<Rightarrow> (Inl e, m)
             | Inr (norm', nbn1) \<Rightarrow>
                (case apply_bn tb nbn1 norm of
                   Inl e \<Rightarrow> (Inl e, m\<lparr>norm_batch_norm := Some nbn1\<rparr>)
                 | Inr (y, nbn2) \<Rightarrow>
                     (Inr (scale_by (div_by output norm)
                             (map_embedding (\<lambda>v. 1 + sigmoid v) y)),
                      m\<lparr>norm_batch_norm := Some nbn2\<rparr>))))
      else (Inr output, m))"

text \<open>
  Lines 194--270 and 194--287: the rest of \<^verbatim>\<open>forward\<close> once the two variables
  \<^verbatim>\<open>output\<close> and \<^verbatim>\<open>sequence\<close> are bound.
\<close>

definition embed_from ::
  "torch \<Rightarrow> ClopiNet \<Rightarrow> bool \<Rightarrow> nat \<Rightarrow> device \<Rightarrow> sequence \<Rightarrow> sequence \<Rightarrow>
   (error + embedding) \<times> ClopiNet" where
  "embed_from tb m packed_sequences bs d output sequence =
     (case move_alphas m d of
        Inl e \<Rightarrow> (Inl e, m)
      | Inr m1 \<Rightarrow>
         (case pooled tb m1 packed_sequences bs d output sequence of
            Inl e \<Rightarrow> (Inl e, m1)
          | Inr out \<Rightarrow> batch_norm_step tb m1 out))"

definition forward_from ::
  "torch \<Rightarrow> ClopiNet \<Rightarrow> bool \<Rightarrow> nat \<Rightarrow> device \<Rightarrow> sequence \<Rightarrow> sequence \<Rightarrow>
   (error + embedding) \<times> ClopiNet" where
  "forward_from tb m packed_sequences bs d output sequence =
     (case embed_from tb m packed_sequences bs d output sequence of
        (Inl e, m') \<Rightarrow> (Inl e, m')
      | (Inr out, m') \<Rightarrow> normalize_output tb m' out)"

text \<open>
  Lines 172--270: the embedding after pooling and batch normalization, before the output
  normalization. Line 187 binds \<^verbatim>\<open>output\<close> to the input as it came; lines 189--192 then
  rebind \<^verbatim>\<open>sequence\<close>.
\<close>

definition embed :: "torch \<Rightarrow> ClopiNet \<Rightarrow> sequence \<Rightarrow> (error + embedding) \<times> ClopiNet" where
  "embed tb m sequence =
     (case input_size sequence of
        Inl e \<Rightarrow> (Inl e, m)
      | Inr (batch_size, nf, d) \<Rightarrow>
         (case check_features m nf of
            Inl e \<Rightarrow> (Inl e, m)
          | Inr _ \<Rightarrow>
             (let output = sequence in
              case normalize_input tb m sequence of
                Inl e \<Rightarrow> (Inl e, m)
              | Inr sequence' \<Rightarrow>
                  embed_from tb m (is_packed sequence) batch_size d output sequence')))"

text \<open>\<^verbatim>\<open>forward\<close> (lines 170--287).\<close>

definition forward :: "torch \<Rightarrow> ClopiNet \<Rightarrow> sequence \<Rightarrow> (error + embedding) \<times> ClopiNet" where
  "forward tb m sequence =
     (case embed tb m sequence of
        (Inl e, m') \<Rightarrow> (Inl e, m')
      | (Inr out, m') \<Rightarrow> normalize_output tb m' out)"

text \<open>
  A reference library for concrete evaluations: recurrent layers that return their input,
  linear layers that return a dense input and refuse a \<^verbatim>\<open>PackedSequence\<close> with a
  \<^verbatim>\<open>TypeError\<close> (as \<^verbatim>\<open>nn.Linear\<close> does), instance normalization as documented (\<^verbatim>\<open>eps = 1e-5\<close>, biased variance,
  along the last dimension), and batch normalization in evaluation mode with the stored
  statistics.
\<close>

definition instance_norm_ref :: "tensor3 \<Rightarrow> tensor3" where
  "instance_norm_ref x =
     x\<lparr>at3 := (\<lambda>b c t.
        (let mean = (\<Sum>i < dim2 x. at3 x b c i) / real (dim2 x);
             var = (\<Sum>i < dim2 x. (at3 x b c i - mean)\<^sup>2) / real (dim2 x)
         in (at3 x b c t - mean) / sqrt (var + 1 / 100000)))\<rparr>"

definition torch_ref :: torch where
  "torch_ref =
     \<lparr>rnn_dense = (\<lambda>_ _ x. Inr x),
      rnn_packed = (\<lambda>_ _ p. Inr p),
      linear_forward = (\<lambda>_ s. case s of Dense x \<Rightarrow> Inr x
                                | Packed _ \<Rightarrow> Inl (TypeError ''linear(): argument input must be Tensor, not PackedSequence'')),
      pad_packed_sequence = (\<lambda>p. Inr \<lparr>dev3 = dev2 (pk_data p),
                                      dim0 = (case pk_batch_sizes p of [] \<Rightarrow> 0 | b # _ \<Rightarrow> b),
                                      dim1 = length (pk_batch_sizes p), dim2 = cols (pk_data p),
                                      at3 = (\<lambda>b t f. if b < pk_batch_sizes p ! t
                                               then at2 (pk_data p) (sum_list (take t (pk_batch_sizes p)) + b) f
                                               else 0)\<rparr>),
      instance_norm = (\<lambda>x. Inr (instance_norm_ref x)),
      batchnorm_forward = (\<lambda>bn e. Inr (\<lambda>j v. (v - running_mean (bn_running bn) ! j)
                                               / sqrt (running_var (bn_running bn) ! j + 1 / 100000),
                                        bn_running bn))\<rparr>"

text \<open>
  What a call may change in the module: the running statistics of its two
  batch-normalization layers, and nothing else.
\<close>

definition only_stats_changed :: "ClopiNet \<Rightarrow> ClopiNet \<Rightarrow> bool" where
  "only_stats_changed m m' =
     (m' = m\<lparr>batch_norm := batch_norm m', norm_batch_norm := norm_batch_norm m'\<rparr> \<and>
      map_option bn_num_features (batch_norm m') = map_option bn_num_features (batch_norm m) \<and>
      map_option bn_num_features (norm_batch_norm m') =
        map_option bn_num_features (norm_batch_norm m))"

subsection \<open>Concrete configurations and inputs\<close>

text \<open>The defaults of the constructor with 40 input features.\<close>

definition args_default :: init_args where
  "args_default =
     \<lparr>a_n_features = 40, a_rnn = ''LSTM'', a_recurrent = [64, 64, 64],
      a_bidirectional = False, a_pooling = ''sum'', a_instance_normalize = False,
      a_batch_normalize = True, a_normalize = NFalse, a_weighted = False,
      a_linear = None, a_attention = None\<rparr>"

text \<open>One recurrent layer of width 1 on one feature, no batch normalization.\<close>

definition args_small :: init_args where
  "args_small =
     \<lparr>a_n_features = 1, a_rnn = ''LSTM'', a_recurrent = [1],
      a_bidirectional = False, a_pooling = ''sum'', a_instance_normalize = False,
      a_batch_normalize = False, a_normalize = NFalse, a_weighted = False,
      a_linear = None, a_attention = None\<rparr>"

text \<open>The module a constructor call returns (meaningful when it does not raise).\<close>

definition constructed :: "init_args \<Rightarrow> ClopiNet" where
  "constructed a = projr (fst (ClopiNet_init a))"

text \<open>A dense batch of one sequence with two frames of one feature: 1, then 3.\<close>

definition x_small :: tensor3 where
  "x_small = \<lparr>dev3 = CPU, dim0 = 1, dim1 = 2, dim2 = 1,
              at3 = (\<lambda>b t f. if t = 0 then 1 else 3)\<rparr>"

text \<open>The same sequence, length-packed.\<close>

definition p_small :: packed where
  "p_small = \<lparr>pk_data = \<lparr>dev2 = CPU, rows = 2, cols = 1,
                          at2 = (\<lambda>i f. if i = 0 then 1 else 3)\<rparr>,
              pk_batch_sizes = [1, 1]\<rparr>"

section \<open>Properties of the constructor\<close>

lemma digits_0: "digits 0 = ''0''"
  by code_simp

lemma digits_1: "digits (Suc 0) = ''1''"
  by code_simp

lemma digits_40: "digits 40 = ''40''"
  by code_simp

lemmas construct_defs = constructed_def ClopiNet_init_def args_small_def args_default_def
  create_attention_def final_dim_def BatchNorm1d_def ones_parameter_def digits_0 digits_1

text \<open>The constructor copies its arguments into the attributes.\<close>

lemma init_fields:
  assumes "fst (ClopiNet_init a) = Inr m"
  shows "linear m = (case a_linear a of None \<Rightarrow> [] | Some l \<Rightarrow> l) \<and>
         recurrent m = a_recurrent a \<and> bidirectional m = a_bidirectional a"
proof -
  obtain layers eo where cr:
    "create_recurrent (a_rnn a) (a_bidirectional a) 0 (a_n_features a) (a_recurrent a) = (layers, eo)"
    by (cases "create_recurrent (a_rnn a) (a_bidirectional a) 0 (a_n_features a) (a_recurrent a)")
  show ?thesis
  proof (cases "a_pooling a \<noteq> ''sum'' \<and> a_pooling a \<noteq> ''max''")
    case True
    then show ?thesis using assms by (simp add: ClopiNet_init_def)
  next
    case False
    show ?thesis
    proof (cases eo)
      case None
      then have "m = projr (fst (ClopiNet_init a))" using assms by simp
      then show ?thesis using False None cr
        by (simp add: ClopiNet_init_def Let_def)
    next
      case (Some e)
      then show ?thesis using assms False cr by (simp add: ClopiNet_init_def Let_def)
    qed
  qed
qed

text \<open>
  C2. The property \<^verbatim>\<open>output_dim\<close> of a constructed module is the last linear size when
  linear sizes were given and are not empty, and otherwise the sum of the recurrent sizes,
  doubled when the layers are bidirectional.
\<close>

theorem output_dim_constructed:
  "fst (ClopiNet_init a) = Inr m \<Longrightarrow>
   output_dim m =
     (case a_linear a of
        None \<Rightarrow> sum_list (a_recurrent a) * (if a_bidirectional a then 2 else 1)
      | Some l \<Rightarrow> if l \<noteq> [] then last l
                  else sum_list (a_recurrent a) * (if a_bidirectional a then 2 else 1))"
  by (simp add: output_dim_def init_fields split: option.splits)

theorem output_dim_constructed_witness:
  "fst (ClopiNet_init args_default) = Inr (constructed args_default) \<and>
   output_dim (constructed args_default) = 192"
proof -
  have 1: "fst (ClopiNet_init args_default) = Inr (constructed args_default)"
    by (simp add: constructed_def ClopiNet_init_def args_default_def Let_def)
  show ?thesis
    using 1 output_dim_constructed [OF 1] by (simp add: args_default_def)
qed

text \<open>
  C3, as the code has it. When the recurrent cell kind is neither \<^verbatim>\<open>LSTM\<close> nor
  \<^verbatim>\<open>GRU\<close> and the list of recurrent sizes is not empty, the constructor raises a
  \<^verbatim>\<open>ValueError\<close> and has allocated nothing: the one about \<^verbatim>\<open>rnn\<close> when the pooling mode
  is valid, the one about \<^verbatim>\<open>pooling\<close> otherwise.
\<close>

theorem invalid_rnn_nonempty_recurrent:
  \<open>a_rnn a \<noteq> ''LSTM'' \<Longrightarrow> a_rnn a \<noteq> ''GRU'' \<Longrightarrow> a_recurrent a \<noteq> [] \<Longrightarrow>
   ClopiNet_init a =
     (Inl (ValueError (if a_pooling a = ''sum'' \<or> a_pooling a = ''max''
                       then ''"rnn" must be one of {"LSTM", "GRU"}.''
                       else ''"pooling" must be one of {"sum", "max"}'')), [])\<close>
  by (cases "a_recurrent a") (auto simp: ClopiNet_init_def)

theorem invalid_rnn_nonempty_recurrent_witness:
  \<open>a_rnn (args_default\<lparr>a_rnn := ''RNN''\<rparr>) \<noteq> ''LSTM'' \<and>
   a_rnn (args_default\<lparr>a_rnn := ''RNN''\<rparr>) \<noteq> ''GRU'' \<and>
   a_recurrent (args_default\<lparr>a_rnn := ''RNN''\<rparr>) \<noteq> [] \<and>
   ClopiNet_init (args_default\<lparr>a_rnn := ''RNN''\<rparr>) =
     (Inl (ValueError ''"rnn" must be one of {"LSTM", "GRU"}.''), [])\<close>
  using invalid_rnn_nonempty_recurrent [of "args_default\<lparr>a_rnn := ''RNN''\<rparr>"]
  by (simp add: args_default_def)

text \<open>
  C3 fails as stated: with an empty list of recurrent sizes the loop that holds the check
  never runs, and the constructor returns a module whatever \<^verbatim>\<open>rnn\<close> is.
\<close>

theorem invalid_rnn_empty_recurrent_counterexample:
  "a_rnn (args_default\<lparr>a_rnn := ''RNN'', a_recurrent := []\<rparr>) \<noteq> ''LSTM'' \<and>
   a_rnn (args_default\<lparr>a_rnn := ''RNN'', a_recurrent := []\<rparr>) \<noteq> ''GRU'' \<and>
   \<not> isl (fst (ClopiNet_init (args_default\<lparr>a_rnn := ''RNN'', a_recurrent := []\<rparr>))) \<and>
   rnn (constructed (args_default\<lparr>a_rnn := ''RNN'', a_recurrent := []\<rparr>)) = ''RNN''"
  by (simp add: constructed_def ClopiNet_init_def args_default_def Let_def)

text \<open>
  C7. When the pooling mode is neither \<^verbatim>\<open>sum\<close> nor \<^verbatim>\<open>max\<close>, the constructor raises the
  \<^verbatim>\<open>ValueError\<close> about \<^verbatim>\<open>pooling\<close>, returns no module, and has allocated no sub-layer
  and no parameter.
\<close>

theorem invalid_pooling_raises_first:
  \<open>a_pooling a \<noteq> ''sum'' \<Longrightarrow> a_pooling a \<noteq> ''max'' \<Longrightarrow>
   ClopiNet_init a = (Inl (ValueError ''"pooling" must be one of {"sum", "max"}''), [])\<close>
  by (simp add: ClopiNet_init_def)

theorem invalid_pooling_raises_first_witness:
  \<open>a_pooling (args_default\<lparr>a_pooling := ''avg''\<rparr>) \<noteq> ''sum'' \<and>
   a_pooling (args_default\<lparr>a_pooling := ''avg''\<rparr>) \<noteq> ''max'' \<and>
   ClopiNet_init (args_default\<lparr>a_pooling := ''avg''\<rparr>) =
     (Inl (ValueError ''"pooling" must be one of {"sum", "max"}''), [])\<close>
  using invalid_pooling_raises_first [of "args_default\<lparr>a_pooling := ''avg''\<rparr>"]
  by simp

section \<open>Properties of forward evaluation\<close>

subsection \<open>What the call leaves alone\<close>

text \<open>
  Rebinding \<^verbatim>\<open>alphas_\<close> succeeds only when \<^verbatim>\<open>to\<close> returned the parameter itself, and
  then the module is as it was.
\<close>

lemma move_alphas_same: "move_alphas m d = Inr m1 \<Longrightarrow> m1 = m"
  by (auto simp: move_alphas_def setattr_alphas_def tensor_to_def
           split: if_splits option.splits)

lemma only_stats_refl: "only_stats_changed m m"
  by (simp add: only_stats_changed_def)

lemma only_stats_trans:
  "only_stats_changed m m1 \<Longrightarrow> only_stats_changed m1 m2 \<Longrightarrow> only_stats_changed m m2"
  unfolding only_stats_changed_def
  by (cases m, cases m1, cases m2) auto

lemma apply_bn_features:
  "apply_bn tb bn e = Inr (e', bn') \<Longrightarrow> bn_num_features bn' = bn_num_features bn"
  by (auto simp: apply_bn_def split: sum.splits prod.splits)

lemma batch_norm_step_frame: "only_stats_changed m (snd (batch_norm_step tb m e))"
  by (cases m)
     (auto simp: batch_norm_step_def only_stats_changed_def
           split: option.splits sum.splits dest: apply_bn_features)

lemma normalize_output_frame: "only_stats_changed m (snd (normalize_output tb m e))"
  by (cases m)
     (auto simp: normalize_output_def only_stats_changed_def Let_def apply_bn_def
           split: option.splits sum.splits prod.splits)

lemma embed_from_frame: "only_stats_changed m (snd (embed_from tb m pk bs d out sq))"
  by (auto simp: embed_from_def only_stats_refl batch_norm_step_frame
           split: sum.splits dest!: move_alphas_same)

lemma embed_frame: "only_stats_changed m (snd (embed tb m s))"
  by (auto simp: embed_def only_stats_refl embed_from_frame Let_def
           split: sum.splits prod.splits)

lemma forward_frame: "only_stats_changed m (snd (forward tb m s))"
proof (cases "embed tb m s")
  case (Pair r m1)
  have 1: "only_stats_changed m m1"
    using embed_frame [of m tb s] Pair by simp
  show ?thesis
  proof (cases r)
    case (Inl e)
    then show ?thesis using Pair 1 by (simp add: forward_def)
  next
    case (Inr out)
    then have "snd (forward tb m s) = snd (normalize_output tb m1 out)"
      using Pair by (simp add: forward_def)
    then show ?thesis
      using only_stats_trans [OF 1 normalize_output_frame [of m1 tb out]] by simp
  qed
qed

lemma only_stats_normalize:
  assumes "only_stats_changed m m'"
  shows "normalize m' = normalize m"
proof -
  have "m' = m\<lparr>batch_norm := batch_norm m', norm_batch_norm := norm_batch_norm m'\<rparr>"
    using assms by (simp only: only_stats_changed_def)
  then have "normalize m' =
             normalize (m\<lparr>batch_norm := batch_norm m', norm_batch_norm := norm_batch_norm m'\<rparr>)"
    by (rule arg_cong)
  then show ?thesis by simp
qed

lemma only_stats_alphas:
  assumes "only_stats_changed m m'"
  shows "alphas m' = alphas m"
proof -
  have "m' = m\<lparr>batch_norm := batch_norm m', norm_batch_norm := norm_batch_norm m'\<rparr>"
    using assms by (simp only: only_stats_changed_def)
  then have "alphas m' =
             alphas (m\<lparr>batch_norm := batch_norm m', norm_batch_norm := norm_batch_norm m'\<rparr>)"
    by (rule arg_cong)
  then show ?thesis by simp
qed

lemma embed_normalize: "normalize (snd (embed tb m s)) = normalize m"
  by (rule only_stats_normalize [OF embed_frame])

lemmas forward_defs = embed_def input_size_def check_features_def
  normalize_input_def embed_from_def move_alphas_def setattr_alphas_def tensor_to_def
  pooled_def before_pooling_def recurrent_outputs_def initial_hidden_def apply_weights_def
  attend_def pool_def batch_norm_step_def is_packed_def apply_bn_def

text \<open>
  C4. Whatever the library computes and whatever the input, the module after a call of
  \<^verbatim>\<open>forward\<close> (returning or raising) is the module before it but for the two
  batch-normalization layers, which keep their size and may have new running statistics;
  in particular \<^verbatim>\<open>alphas_\<close> is what it was.
\<close>

theorem forward_mutates_only_statistics:
  "only_stats_changed m (snd (forward tb m s)) \<and> alphas (snd (forward tb m s)) = alphas m"
  using forward_frame [of m tb s] only_stats_alphas [OF forward_frame [of m tb s]] by simp

theorem forward_mutates_only_statistics_witness:
  "only_stats_changed
     (constructed (args_small\<lparr>a_weighted := True, a_batch_normalize := True\<rparr>))
     (snd (forward torch_ref
             (constructed (args_small\<lparr>a_weighted := True, a_batch_normalize := True\<rparr>))
             (Dense x_small))) \<and>
   alphas (snd (forward torch_ref
             (constructed (args_small\<lparr>a_weighted := True, a_batch_normalize := True\<rparr>))
             (Dense x_small))) = Some (ones_parameter 1)"
  using forward_mutates_only_statistics
          [of "constructed (args_small\<lparr>a_weighted := True, a_batch_normalize := True\<rparr>)"
              torch_ref "Dense x_small"]
  by (simp add: constructed_def ClopiNet_init_def args_small_def Let_def)

subsection \<open>Output normalization\<close>

lemma l2norm_scale:
  "l2norm (e\<lparr>e_at := (\<lambda>b j k. e_at e b j k * c b k)\<rparr>) b k = \<bar>c b k\<bar> * l2norm e b k"
proof -
  have "(\<Sum>j < e_c e. (e_at e b j k * c b k)\<^sup>2) =
        (c b k)\<^sup>2 * (\<Sum>j < e_c e. (e_at e b j k)\<^sup>2)"
    by (simp add: power_mult_distrib sum_distrib_left mult.commute)
  then show ?thesis
    by (simp add: l2norm_def real_sqrt_mult)
qed

lemma l2norm_nonneg: "0 \<le> l2norm e b k"
  by (simp add: l2norm_def sum_nonneg)

lemma l2norm_div_by:
  assumes "l2norm e b k \<noteq> 0"
  shows "l2norm (div_by e (norm_dim1 e)) b k = 1"
proof -
  have "div_by e (norm_dim1 e) = e\<lparr>e_at := (\<lambda>b j k. e_at e b j k * (1 / l2norm e b k))\<rparr>"
    by (simp add: div_by_def norm_dim1_def)
  then have "l2norm (div_by e (norm_dim1 e)) b k = \<bar>1 / l2norm e b k\<bar> * l2norm e b k"
    using l2norm_scale [of e "\<lambda>b k. 1 / l2norm e b k" b k] by simp
  then show ?thesis
    using assms l2norm_nonneg [of e b k] by simp
qed

lemma l2norm_small: "l2norm (sum_dim1 x_small) 0 0 = 4"
proof -
  have "(\<Sum>t<(2::nat). (if t = 0 then 1 else (3::real))) = 4"
    by (simp add: numeral_2_eq_2)
  then have "l2norm (sum_dim1 x_small) 0 0 = sqrt (4\<^sup>2)"
    by (simp add: l2norm_def sum_dim1_def x_small_def)
  then show ?thesis by simp
qed

text \<open>
  C8. Under mode \<^verbatim>\<open>sphere\<close>, whenever the embedding that reaches the output
  normalization (after pooling and, if enabled, batch normalization) has a nonzero norm at
  a batch element, the call returns and the returned vector of that batch element has
  Euclidean norm 1. Entries are real numbers here; rounding is not modelled.
\<close>

theorem sphere_unit_norm:
  assumes "normalize m = NStr ''sphere''"
      and "embed tb m s = (Inr e, m')"
      and "l2norm e b k \<noteq> 0"
  shows "\<exists>out. forward tb m s = (Inr out, m') \<and> l2norm out b k = 1"
proof -
  have "normalize m' = NStr ''sphere''"
    using embed_normalize [of tb m s] assms(1,2) by simp
  then have "forward tb m s = (Inr (div_by e (norm_dim1 e)), m')"
    using assms(2) by (simp add: forward_def normalize_output_def)
  then show ?thesis
    using l2norm_div_by [OF assms(3)] by simp
qed

theorem sphere_unit_norm_witness:
  "l2norm (sum_dim1 x_small) 0 0 \<noteq> 0 \<and>
   l2norm (projr (fst (forward torch_ref
      (constructed (args_small\<lparr>a_normalize := NStr ''sphere''\<rparr>)) (Dense x_small)))) 0 0 = 1"
proof -
  let ?m = "constructed (args_small\<lparr>a_normalize := NStr ''sphere''\<rparr>)"
  have 1: "normalize ?m = NStr ''sphere''"
    by (simp add: construct_defs)
  have 2: "embed torch_ref ?m (Dense x_small) = (Inr (sum_dim1 x_small), ?m)"
    by (simp add: construct_defs forward_defs torch_ref_def x_small_def)
  have 3: "l2norm (sum_dim1 x_small) 0 0 \<noteq> 0"
    by (simp add: l2norm_small)
  from sphere_unit_norm [OF 1 2 3] obtain out where
    "forward torch_ref ?m (Dense x_small) = (Inr out, ?m)" and "l2norm out 0 0 = 1"
    by blast
  then show ?thesis using 3 by simp
qed

subsection \<open>Errors raised by forward\<close>

text \<open>
  C5. A dense batch of any batch size and length, and a length-packed batch with at least
  one time step, whose feature count differs from \<^verbatim>\<open>n_features\<close> makes \<^verbatim>\<open>forward\<close> raise
  the \<^verbatim>\<open>ValueError\<close> of line 185; nothing is returned, no layer has run and the module is
  as it was.
\<close>

theorem wrong_feature_dimension:
  "(int (dim2 x) \<noteq> n_features m \<longrightarrow>
      forward tb m (Dense x) =
        (Inl (ValueError (''Wrong feature dimension. Found '' @ digits (dim2 x) @
                          '', should be '' @ str_int (n_features m))), m)) \<and>
   (pk_batch_sizes p \<noteq> [] \<longrightarrow> int (cols (pk_data p)) \<noteq> n_features m \<longrightarrow>
      forward tb m (Packed p) =
        (Inl (ValueError (''Wrong feature dimension. Found '' @ digits (cols (pk_data p)) @
                          '', should be '' @ str_int (n_features m))), m))"
  by (cases "pk_batch_sizes p")
     (simp_all add: forward_def embed_def input_size_def check_features_def)

theorem wrong_feature_dimension_witness:
  "int (dim2 x_small) \<noteq> n_features (constructed args_default) \<and>
   forward torch_ref (constructed args_default) (Dense x_small) =
     (Inl (ValueError ''Wrong feature dimension. Found 1, should be 40''),
      constructed args_default) \<and>
   pk_batch_sizes p_small \<noteq> [] \<and>
   int (cols (pk_data p_small)) \<noteq> n_features (constructed args_default) \<and>
   forward torch_ref (constructed args_default) (Packed p_small) =
     (Inl (ValueError ''Wrong feature dimension. Found 1, should be 40''),
      constructed args_default)"
proof -
  have 1: "n_features (constructed args_default) = 40"
    by (simp add: constructed_def ClopiNet_init_def args_default_def Let_def)
  show ?thesis
    using wrong_feature_dimension [of x_small "constructed args_default" torch_ref p_small] 1
    by (simp add: x_small_def p_small_def str_int_def digits_1 digits_40)
qed

subsection \<open>An output-normalization mode that is none of the three\<close>

text \<open>
  The constructor reads \<^verbatim>\<open>normalize\<close> only to decide whether to allocate the norm's
  batch normalization.
\<close>

lemma init_normalize_irrelevant:
  assumes "nm \<noteq> NStr ''ball''" "nm \<noteq> NStr ''ring''"
  shows "ClopiNet_init (a\<lparr>a_normalize := nm\<rparr>) =
     (map_sum id (\<lambda>m. m\<lparr>normalize := nm\<rparr>) (fst (ClopiNet_init (a\<lparr>a_normalize := NFalse\<rparr>))),
      snd (ClopiNet_init (a\<lparr>a_normalize := NFalse\<rparr>)))"
proof -
  obtain layers eo where cr:
    "create_recurrent (a_rnn a) (a_bidirectional a) 0 (a_n_features a) (a_recurrent a) = (layers, eo)"
    by (cases "create_recurrent (a_rnn a) (a_bidirectional a) 0 (a_n_features a) (a_recurrent a)")
  show ?thesis
  proof (cases "a_pooling a \<noteq> ''sum'' \<and> a_pooling a \<noteq> ''max''")
    case True
    then show ?thesis by (simp add: ClopiNet_init_def)
  next
    case False
    show ?thesis
    proof (cases eo)
      case None
      then show ?thesis using False cr assms
        by (auto simp: ClopiNet_init_def Let_def)
    next
      case (Some e)
      then show ?thesis using False cr by (auto simp: ClopiNet_init_def Let_def)
    qed
  qed
qed

text \<open>
  C10. For a truthy \<^verbatim>\<open>normalize\<close> that is none of \<^verbatim>\<open>sphere\<close>, \<^verbatim>\<open>ball\<close>, \<^verbatim>\<open>ring\<close>:
  the constructor raises exactly when it raises with \<^verbatim>\<open>normalize=False\<close>, with the same
  error and the same allocations, and otherwise returns the same module but for the
  attribute \<^verbatim>\<open>normalize\<close>; and \<^verbatim>\<open>forward\<close> returns what pooling and the optional batch
  normalization produced, unchanged.
\<close>

theorem unknown_normalize_mode:
  assumes "truthy nm"
      and "nm \<noteq> NStr ''sphere''" and "nm \<noteq> NStr ''ball''" and "nm \<noteq> NStr ''ring''"
  shows "ClopiNet_init (a\<lparr>a_normalize := nm\<rparr>) =
           (map_sum id (\<lambda>m. m\<lparr>normalize := nm\<rparr>)
              (fst (ClopiNet_init (a\<lparr>a_normalize := NFalse\<rparr>))),
            snd (ClopiNet_init (a\<lparr>a_normalize := NFalse\<rparr>))) \<and>
         (normalize m = nm \<longrightarrow> forward tb m s = embed tb m s)"
proof -
  have "forward tb m s = embed tb m s" if nm: "normalize m = nm"
  proof (cases "embed tb m s")
    case (Pair r m1)
    have "normalize m1 = nm"
      using embed_normalize [of tb m s] Pair nm by simp
    then show ?thesis
      using Pair assms(2-4) by (cases r) (simp_all add: forward_def normalize_output_def)
  qed
  then show ?thesis
    using init_normalize_irrelevant [OF assms(3,4)] by simp
qed


theorem unknown_normalize_mode_witness:
  "truthy (NStr ''cube'') \<and>
   \<not> isl (fst (ClopiNet_init (args_small\<lparr>a_normalize := NStr ''cube''\<rparr>))) \<and>
   normalize (constructed (args_small\<lparr>a_normalize := NStr ''cube''\<rparr>)) = NStr ''cube'' \<and>
   forward torch_ref (constructed (args_small\<lparr>a_normalize := NStr ''cube''\<rparr>)) (Dense x_small) =
     (Inr (sum_dim1 x_small), constructed (args_small\<lparr>a_normalize := NStr ''cube''\<rparr>))"
proof -
  let ?m = "constructed (args_small\<lparr>a_normalize := NStr ''cube''\<rparr>)"
  have 1: "normalize ?m = NStr ''cube''"
    by (simp add: construct_defs)
  have 2: "embed torch_ref ?m (Dense x_small) = (Inr (sum_dim1 x_small), ?m)"
    by (simp add: construct_defs forward_defs torch_ref_def x_small_def)
  have 3: "\<not> isl (fst (ClopiNet_init (args_small\<lparr>a_normalize := NFalse\<rparr>)))"
    by (simp add: construct_defs)
  have 4: "truthy (NStr ''cube'')" by simp
  from unknown_normalize_mode [of "NStr ''cube''" args_small ?m torch_ref "Dense x_small", OF 4]
  show ?thesis using 1 2 3 by (simp add: isl_map_sum)
qed

subsection \<open>Which sequence feeds which layers\<close>

text \<open>
  With instance normalization on and a dense input, line 187 has bound \<^verbatim>\<open>output\<close> before
  lines 189--192 rebind \<^verbatim>\<open>sequence\<close>: the recurrent layers read the input as it came and
  only the attention layers read the normalized copy.
\<close>

lemma forward_dense_instance_normalized:
  assumes "instance_normalize m"
      and "int (dim2 x) = n_features m"
      and "instance_norm tb (transpose12 x) = Inr y"
  shows "forward tb m (Dense x) =
         forward_from tb m False (dim0 x) (dev3 x) (Dense x) (Dense (transpose12 y))"
  using assms
  by (simp add: forward_def embed_def forward_from_def input_size_def check_features_def
        normalize_input_def is_packed_def)

lemma sum_small: "(\<Sum>t<(2::nat). (if t = 0 then 1 else (3::real))) = 4"
  by (simp add: numeral_2_eq_2)

lemma normalized_small_sum:
  "(\<Sum>t<(2::nat). at3 (transpose12 (instance_norm_ref (transpose12 x_small))) 0 t 0) = 0"
  by (simp add: transpose12_def instance_norm_ref_def x_small_def Let_def numeral_2_eq_2)

text \<open>
  C1 does not hold of the code. One sequence with the frames 1 and 3, one recurrent layer
  that returns its input, sum pooling, no attention, instance normalization on:
  \<^verbatim>\<open>forward\<close> returns 4, the sum of the original frames, which is also what it returns
  with instance normalization off. Had the recurrent layers read the normalized copy, as
  the claim and the docstring of \<^verbatim>\<open>instance_normalize\<close> have it, the result would be 0.
\<close>

theorem instance_normalize_skips_recurrent:
  "instance_normalize (constructed (args_small\<lparr>a_instance_normalize := True\<rparr>)) \<and>
   instance_norm torch_ref (transpose12 x_small) = Inr (instance_norm_ref (transpose12 x_small)) \<and>
   e_at (projr (fst (forward torch_ref
           (constructed (args_small\<lparr>a_instance_normalize := True\<rparr>)) (Dense x_small)))) 0 0 0 = 4 \<and>
   fst (forward torch_ref (constructed (args_small\<lparr>a_instance_normalize := True\<rparr>)) (Dense x_small)) =
   fst (forward torch_ref (constructed args_small) (Dense x_small)) \<and>
   e_at (projr (fst (forward_from torch_ref
           (constructed (args_small\<lparr>a_instance_normalize := True\<rparr>)) False 1 CPU
           (Dense (transpose12 (instance_norm_ref (transpose12 x_small))))
           (Dense x_small)))) 0 0 0 = 0 \<and>
   forward torch_ref (constructed (args_small\<lparr>a_instance_normalize := True\<rparr>)) (Dense x_small) \<noteq>
   forward_from torch_ref (constructed (args_small\<lparr>a_instance_normalize := True\<rparr>)) False 1 CPU
     (Dense (transpose12 (instance_norm_ref (transpose12 x_small)))) (Dense x_small)"
proof -
  let ?m = "constructed (args_small\<lparr>a_instance_normalize := True\<rparr>)"
  let ?xn = "transpose12 (instance_norm_ref (transpose12 x_small))"
  have 1: "instance_normalize ?m"
    by (simp add: construct_defs)
  have 2: "instance_norm torch_ref (transpose12 x_small) = Inr (instance_norm_ref (transpose12 x_small))"
    by (simp add: torch_ref_def)
  have m1: "int (dim2 x_small) = n_features ?m"
    by (simp add: construct_defs x_small_def)
  have d: "dim0 x_small = 1" "dev3 x_small = CPU"
    by (simp_all add: x_small_def)
  have 3: "forward torch_ref ?m (Dense x_small) =
           forward_from torch_ref ?m False 1 CPU (Dense x_small) (Dense ?xn)"
    using forward_dense_instance_normalized [OF 1 m1 2] d by simp
  have run: "forward_from torch_ref ?m False 1 CPU (Dense x_small) (Dense ?xn) =
            (Inr (sum_dim1 x_small), ?m)"
    by (simp add: forward_from_def normalize_output_def construct_defs forward_defs torch_ref_def)
  have 4: "forward_from torch_ref ?m False 1 CPU (Dense ?xn) (Dense x_small) = (Inr (sum_dim1 ?xn), ?m)"
    by (simp add: forward_from_def normalize_output_def construct_defs forward_defs torch_ref_def)
  have 5: "e_at (sum_dim1 x_small) 0 0 0 = 4"
    using sum_small by (simp add: sum_dim1_def x_small_def)
  have 6: "e_at (sum_dim1 ?xn) 0 0 0 = 0"
    using normalized_small_sum
    by (simp add: sum_dim1_def transpose12_def instance_norm_ref_def x_small_def)
  have 7: "sum_dim1 x_small \<noteq> sum_dim1 ?xn"
    using 5 6 by (metis zero_neq_numeral)
  have 8: "forward torch_ref (constructed args_small) (Dense x_small) =
           (Inr (sum_dim1 x_small), constructed args_small)"
    by (simp add: forward_def normalize_output_def construct_defs forward_defs torch_ref_def
          x_small_def)
  show ?thesis using 1 2 3 run 4 5 6 7 8 by simp
qed

subsection \<open>Length-packed input with attention or max pooling\<close>

text \<open>
  On a length-packed input with attention layers or max pooling, \<^verbatim>\<open>forward\<close> never
  returns an embedding.
\<close>

lemma pooled_packed_fails:
  "attention_layers m \<noteq> [] \<or> pooling m = ''max'' \<Longrightarrow> isl (pooled tb m True bs d out sq)"
  by (auto simp: pooled_def before_pooling_def attend_def pool_def split: sum.splits)

lemma embed_from_packed_fails:
  "attention_layers m \<noteq> [] \<or> pooling m = ''max'' \<Longrightarrow>
   isl (fst (embed_from tb m True bs d out sq))"
proof -
  assume h: "attention_layers m \<noteq> [] \<or> pooling m = ''max''"
  show ?thesis
  proof (cases "move_alphas m d")
    case (Inl e)
    then show ?thesis by (simp add: embed_from_def)
  next
    case (Inr m1)
    then have "m1 = m" by (rule move_alphas_same)
    then show ?thesis
      using Inr pooled_packed_fails [OF h, of tb bs d out sq]
      by (cases "pooled tb m True bs d out sq") (simp_all add: embed_from_def)
  qed
qed

lemma forward_packed_fails:
  assumes "attention_layers m \<noteq> [] \<or> pooling m = ''max''"
  shows "isl (fst (forward tb m (Packed p)))"
proof -
  have "isl (fst (embed tb m (Packed p)))"
    using embed_from_packed_fails [OF assms]
    by (auto simp: embed_def is_packed_def Let_def split: sum.splits prod.splits)
  then show ?thesis
    by (cases "embed tb m (Packed p)"; cases "fst (embed tb m (Packed p))")
       (auto simp: forward_def)
qed

text \<open>
  The guard of max pooling (line 260) stands before the operation it protects: with max
  pooling, a packed input of the configured feature count, instance normalization off and
  lines 194--254 run without raising, the exception is the \<^verbatim>\<open>NotImplementedError\<close> of
  line 263.
\<close>

lemma forward_packed_max:
  assumes "pooling m = ''max''" and "\<not> instance_normalize m"
      and "pk_batch_sizes p = bs # rest"
      and "int (cols (pk_data p)) = n_features m"
      and "move_alphas m (dev2 (pk_data p)) = Inr m"
      and "before_pooling tb m True bs (dev2 (pk_data p)) (Packed p) (Packed p) = Inr out4"
  shows \<open>forward tb m (Packed p) =
     (Inl (NotImplementedError
             ''"max" pooling is not yet implemented for variable length sequences.''), m)\<close>
  using assms
  by (simp add: forward_def embed_def input_size_def check_features_def normalize_input_def
        is_packed_def embed_from_def pooled_def pool_def)

text \<open>
  The guard of attention (lines 249--252) stands after the attention layers have run
  (lines 243--247): when the first attention layer raises on the packed input, that
  exception is what lines 242--254 raise.
\<close>

lemma attend_first_layer_raises:
  assumes "attention_layers m = layer # layers"
      and "linear_forward tb layer sq = Inl e"
  shows "attend tb m pk sq out = Inl e"
  using assms by (cases "attention m") (simp_all add: attend_def)

text \<open>
  C6 does not hold of the code. One recurrent layer, one attention layer, instance
  normalization off, and a packed input of the configured feature count, with linear
  layers that refuse a \<^verbatim>\<open>PackedSequence\<close> as \<^verbatim>\<open>nn.Linear\<close> does: \<^verbatim>\<open>forward\<close> raises
  the layer's \<^verbatim>\<open>TypeError\<close> at line 246, not the \<^verbatim>\<open>NotImplementedError\<close> of line 252.
\<close>

theorem attention_guard_after_use:
  "attention_layers (constructed (args_small\<lparr>a_attention := Some [1]\<rparr>)) \<noteq> [] \<and>
   \<not> instance_normalize (constructed (args_small\<lparr>a_attention := Some [1]\<rparr>)) \<and>
   pk_batch_sizes p_small \<noteq> [] \<and>
   int (cols (pk_data p_small)) = n_features (constructed (args_small\<lparr>a_attention := Some [1]\<rparr>)) \<and>
   forward torch_ref (constructed (args_small\<lparr>a_attention := Some [1]\<rparr>)) (Packed p_small) =
     (Inl (TypeError ''linear(): argument input must be Tensor, not PackedSequence''),
      constructed (args_small\<lparr>a_attention := Some [1]\<rparr>))"
  by (simp add: construct_defs Let_def forward_def normalize_output_def forward_defs
        torch_ref_def p_small_def str_int_def)

end
